theory Spec2Isabelle
  imports Main
begin

section \<open>Strings as the program uses them\<close>

text \<open>
  A JavaScript string is modelled as a \<^typ>\<open>string\<close>: a list of code units, here the
  code units below 256. Of the characters that \<^verbatim>\<open>String.prototype.trim\<close> and the
  regular-expression class \<^verbatim>\<open>\s\<close> treat as white space, those in this range are
  U+0009 to U+000D, U+0020 and U+00A0.
\<close>

definition NL :: char where
  "NL = CHR 0x0A"

definition is_ws :: "char \<Rightarrow> bool" where
  "is_ws c \<longleftrightarrow> c \<in> {CHR 0x09, CHR 0x0A, CHR 0x0B, CHR 0x0C, CHR 0x0D, CHR 0x20, CHR 0xA0}"

text \<open>\<^verbatim>\<open>s.trim()\<close>: white space removed at both ends.\<close>

definition trim :: "string \<Rightarrow> string" where
  "trim s = rev (dropWhile is_ws (rev (dropWhile is_ws s)))"

text \<open>A string is blank when it is empty or holds white space only.\<close>

definition blank :: "string \<Rightarrow> bool" where
  "blank s \<longleftrightarrow> (\<forall>c \<in> set s. is_ws c)"

text \<open>\<^verbatim>\<open>s.startsWith(p)\<close>, \<^verbatim>\<open>s.endsWith(p)\<close> and \<^verbatim>\<open>s.includes(p)\<close> (here \<open>str_includes\<close>).\<close>

fun startsWith :: "string \<Rightarrow> string \<Rightarrow> bool" where
  "startsWith s [] = True"
| "startsWith [] (p # ps) = False"
| "startsWith (c # cs) (p # ps) = (c = p \<and> startsWith cs ps)"

definition endsWith :: "string \<Rightarrow> string \<Rightarrow> bool" where
  "endsWith s p = startsWith (rev s) (rev p)"

fun str_includes :: "string \<Rightarrow> string \<Rightarrow> bool" where
  "str_includes [] p = (p = [])"
| "str_includes (c # cs) p = (startsWith (c # cs) p \<or> str_includes cs p)"

text \<open>
  JavaScript truthiness of a string that may be \<^verbatim>\<open>undefined\<close> or \<^verbatim>\<open>null\<close>:
  only a present, non-empty string is truthy.
\<close>

fun truthy :: "string option \<Rightarrow> bool" where
  "truthy None = False"
| "truthy (Some s) = (s \<noteq> [])"

section \<open>The completion client (services/geminiService)\<close>

text \<open>
  A thrown JavaScript value is either an \<^verbatim>\<open>Error\<close> with its message or some other
  value, for which \<^verbatim>\<open>instanceof Error\<close> is false.
\<close>

datatype js_thrown = Error string | NonError

datatype action = Analyze | CoverLetter | RefineResume

text \<open>
  The request handed to \<^verbatim>\<open>ai.models.generateContent\<close>. The prompt is a fixed template
  literal into which the resume and the job descriptions are substituted; it is kept
  symbolic as the template's kind and the two substituted texts. The temperature is
  recorded in tenths.
\<close>

record request =
  model :: string
  prompt_kind :: action
  prompt_resume :: string
  prompt_jobDescriptions :: string
  temperature_tenths :: nat

text \<open>
  What the remote call does: it throws, or it answers with a response whose
  \<^verbatim>\<open>text\<close> field is a string or is absent.
\<close>

datatype api_outcome = Throws js_thrown | Responds "string option"

text \<open>
  The environment of the module: the credential read from \<^verbatim>\<open>process.env.API_KEY\<close>
  (absent is \<open>None\<close>) and the behaviour of the remote service.
\<close>

record environment =
  API_KEY :: "string option"
  generateContent :: "request \<Rightarrow> api_outcome"

definition MODEL_NAME :: string where
  "MODEL_NAME = ''gemini-2.5-flash-preview-04-17''"

definition not_configured_message :: string where
  "not_configured_message =
     ''Gemini API Key is not configured. Please set the API_KEY environment variable.''"

definition invalid_key_message :: string where
  "invalid_key_message =
     ''Invalid or missing Gemini API Key. Please check your configuration.''"

definition empty_response_message :: string where
  "empty_response_message = ''Received an empty response from the AI.''"

definition summary_failed_message :: string where
  "summary_failed_message = ''Failed to generate summary from AI. Please try again later.''"

definition cover_letter_failed_message :: string where
  "cover_letter_failed_message =
     ''Failed to generate cover letter from AI. Please try again later.''"

definition refine_failed_message :: string where
  "refine_failed_message = ''Failed to refine resume from AI. Please try again later.''"

text \<open>The test of the \<^verbatim>\<open>catch\<close> blocks for a credential failure.\<close>

fun is_key_failure :: "js_thrown \<Rightarrow> bool" where
  "is_key_failure (Error m) = (str_includes m ''API_KEY_INVALID'' \<or> str_includes m ''API key'')"
| "is_key_failure NonError = False"

text \<open>
  The \<^verbatim>\<open>catch\<close> block shared by the three functions, with the function's own
  generic message: whatever was thrown inside \<^verbatim>\<open>try\<close> is replaced by a new
  \<^verbatim>\<open>Error\<close>.
\<close>

definition rethrow :: "string \<Rightarrow> js_thrown \<Rightarrow> js_thrown" where
  "rethrow generic e = (if is_key_failure e then Error invalid_key_message else Error generic)"

text \<open>
  Each function returns what it throws (\<open>Inl\<close>) or returns (\<open>Inr\<close>), together with
  the list of requests it sent, in order. The check \<^verbatim>\<open>if (!text) throw ...\<close> sits
  inside the \<^verbatim>\<open>try\<close> block, so its error passes through \<open>rethrow\<close> as well.
\<close>

definition generateAlignmentSummary ::
  "environment \<Rightarrow> string \<Rightarrow> string \<Rightarrow> (js_thrown + string) \<times> request list" where
  "generateAlignmentSummary env resume jobDescriptions =
     (if \<not> truthy (API_KEY env) then (Inl (Error not_configured_message), [])
      else
        let req = \<lparr>model = MODEL_NAME, prompt_kind = Analyze, prompt_resume = resume,
                   prompt_jobDescriptions = jobDescriptions, temperature_tenths = 5\<rparr>
        in case generateContent env req of
             Throws e \<Rightarrow> (Inl (rethrow summary_failed_message e), [req])
           | Responds None \<Rightarrow>
               (Inl (rethrow summary_failed_message (Error empty_response_message)), [req])
           | Responds (Some text) \<Rightarrow>
               (if text = []
                then (Inl (rethrow summary_failed_message (Error empty_response_message)), [req])
                else (Inr text, [req])))"

definition generateCoverLetter ::
  "environment \<Rightarrow> string \<Rightarrow> string \<Rightarrow> (js_thrown + string) \<times> request list" where
  "generateCoverLetter env resume jobDescriptions =
     (if \<not> truthy (API_KEY env) then (Inl (Error not_configured_message), [])
      else
        let req = \<lparr>model = MODEL_NAME, prompt_kind = CoverLetter, prompt_resume = resume,
                   prompt_jobDescriptions = jobDescriptions, temperature_tenths = 7\<rparr>
        in case generateContent env req of
             Throws e \<Rightarrow> (Inl (rethrow cover_letter_failed_message e), [req])
           | Responds None \<Rightarrow>
               (Inl (rethrow cover_letter_failed_message (Error empty_response_message)), [req])
           | Responds (Some text) \<Rightarrow>
               (if text = []
                then (Inl (rethrow cover_letter_failed_message (Error empty_response_message)),
                      [req])
                else (Inr text, [req])))"

definition refineResumeForATS ::
  "environment \<Rightarrow> string \<Rightarrow> string \<Rightarrow> (js_thrown + string) \<times> request list" where
  "refineResumeForATS env resume jobDescriptions =
     (if \<not> truthy (API_KEY env) then (Inl (Error not_configured_message), [])
      else
        let req = \<lparr>model = MODEL_NAME, prompt_kind = RefineResume, prompt_resume = resume,
                   prompt_jobDescriptions = jobDescriptions, temperature_tenths = 4\<rparr>
        in case generateContent env req of
             Throws e \<Rightarrow> (Inl (rethrow refine_failed_message e), [req])
           | Responds None \<Rightarrow>
               (Inl (rethrow refine_failed_message (Error empty_response_message)), [req])
           | Responds (Some text) \<Rightarrow>
               (if text = []
                then (Inl (rethrow refine_failed_message (Error empty_response_message)), [req])
                else (Inr (trim text), [req])))"

section \<open>The view state and the three actions (App)\<close>

text \<open>The \<^verbatim>\<open>useState\<close> cells of the component, with their initial values below.\<close>

record app_state =
  resume :: string
  jobDescriptions :: string
  summary :: "string option"
  coverLetter :: "string option"
  refinedResume :: "string option"
  error :: "string option"
  resumeError :: "string option"
  jobDescError :: "string option"
  isParsing :: bool
  resumeFileName :: "string option"
  activeAction :: "action option"
  copySuccess :: bool

definition initial_state :: app_state where
  "initial_state =
     \<lparr>resume = [], jobDescriptions = [], summary = None, coverLetter = None,
      refinedResume = None, error = None, resumeError = None, jobDescError = None,
      isParsing = False, resumeFileName = None, activeAction = None, copySuccess = False\<rparr>"

definition clearResults :: "app_state \<Rightarrow> app_state" where
  "clearResults st = st\<lparr>summary := None, coverLetter := None, refinedResume := None\<rparr>"

definition resume_empty_message :: string where
  "resume_empty_message = ''Resume content cannot be empty.''"

definition jobDesc_empty_message :: string where
  "jobDesc_empty_message = ''Job description(s) cannot be empty.''"

text \<open>\<^verbatim>\<open>validateInputs\<close> returns its verdict and the state with both field errors set.\<close>

definition validateInputs :: "app_state \<Rightarrow> bool \<times> app_state" where
  "validateInputs st =
     (let (v1, st1) =
            (if trim (resume st) = [] then (False, st\<lparr>resumeError := Some resume_empty_message\<rparr>)
             else (True, st\<lparr>resumeError := None\<rparr>));
          (v2, st2) =
            (if trim (jobDescriptions st) = []
             then (False, st1\<lparr>jobDescError := Some jobDesc_empty_message\<rparr>)
             else (v1, st1\<lparr>jobDescError := None\<rparr>))
      in (v2, st2))"

definition unexpected_error_message :: string where
  "unexpected_error_message = ''An unexpected error occurred.''"

text \<open>What the \<^verbatim>\<open>catch\<close> blocks of the handlers show for a thrown value.\<close>

fun shown_message :: "js_thrown \<Rightarrow> string" where
  "shown_message (Error m) = m"
| "shown_message NonError = unexpected_error_message"

text \<open>
  Each handler runs in two parts around its \<^verbatim>\<open>await\<close>. The first part validates and,
  when the inputs pass, marks the action as active, clears the page-level error and the
  three results; it tells whether the operation goes on. The second part stores the
  outcome of the generation function and returns to idle.
\<close>

definition begin_action :: "action \<Rightarrow> app_state \<Rightarrow> bool \<times> app_state" where
  "begin_action a st =
     (let (isValid, st1) = validateInputs st
      in if \<not> isValid then (False, st1)
         else (True, clearResults (st1\<lparr>activeAction := Some a, error := None\<rparr>)))"

definition set_result :: "action \<Rightarrow> string option \<Rightarrow> app_state \<Rightarrow> app_state" where
  "set_result a v st =
     (case a of
        Analyze \<Rightarrow> st\<lparr>summary := v\<rparr>
      | CoverLetter \<Rightarrow> st\<lparr>coverLetter := v\<rparr>
      | RefineResume \<Rightarrow> st\<lparr>refinedResume := v\<rparr>)"

definition finish_action :: "action \<Rightarrow> js_thrown + string \<Rightarrow> app_state \<Rightarrow> app_state" where
  "finish_action a outcome st =
     (let st1 = (case outcome of
                   Inr result \<Rightarrow> set_result a (Some result) st
                 | Inl err \<Rightarrow> set_result a None (st\<lparr>error := Some (shown_message err)\<rparr>))
      in st1\<lparr>activeAction := None\<rparr>)"

definition generate ::
  "action \<Rightarrow> environment \<Rightarrow> string \<Rightarrow> string \<Rightarrow> (js_thrown + string) \<times> request list" where
  "generate a =
     (case a of
        Analyze \<Rightarrow> generateAlignmentSummary
      | CoverLetter \<Rightarrow> generateCoverLetter
      | RefineResume \<Rightarrow> refineResumeForATS)"

text \<open>
  A whole run of a handler: the final state and every request sent to the remote
  service. The generation function receives the texts the handler was created with,
  which are the current ones (they are the dependencies of \<^verbatim>\<open>useCallback\<close>).
\<close>

definition run_action :: "action \<Rightarrow> environment \<Rightarrow> app_state \<Rightarrow> app_state \<times> request list" where
  "run_action a env st =
     (let (go, st1) = begin_action a st
      in if \<not> go then (st1, [])
         else let (outcome, sent) = generate a env (resume st) (jobDescriptions st)
              in (finish_action a outcome st1, sent))"

definition handleSummarize :: "environment \<Rightarrow> app_state \<Rightarrow> app_state \<times> request list" where
  "handleSummarize = run_action Analyze"

definition handleGenerateCoverLetter ::
  "environment \<Rightarrow> app_state \<Rightarrow> app_state \<times> request list" where
  "handleGenerateCoverLetter = run_action CoverLetter"

definition handleRefineResume :: "environment \<Rightarrow> app_state \<Rightarrow> app_state \<times> request list" where
  "handleRefineResume = run_action RefineResume"

section \<open>File selection and text extraction (App)\<close>

text \<open>The two properties of the selected \<^verbatim>\<open>File\<close> that the handler reads.\<close>

record js_file =
  name :: string
  type :: string

record text_item =
  str :: string

text \<open>
  An opened PDF: its page count and, for a page number, the items of that page's text
  content (\<^verbatim>\<open>getPage(i)\<close> followed by \<^verbatim>\<open>getTextContent()\<close>), or what either call
  throws.
\<close>

record pdf_document =
  numPages :: nat
  getPage :: "nat \<Rightarrow> js_thrown + text_item list"

text \<open>
  The two parsing libraries, each applied to the bytes of the file:
  \<^verbatim>\<open>pdfjsLib.getDocument\<close> and \<^verbatim>\<open>mammoth.extractRawText\<close>.
\<close>

record parsers =
  getDocument :: "js_file \<Rightarrow> js_thrown + pdf_document"
  extractRawText :: "js_file \<Rightarrow> js_thrown + string"

text \<open>\<^verbatim>\<open>xs.join(sep)\<close> on an array of strings.\<close>

fun join :: "string \<Rightarrow> string list \<Rightarrow> string" where
  "join sep [] = []"
| "join sep [x] = x"
| "join sep (x # y # ys) = x @ sep @ join sep (y # ys)"

text \<open>The loop over the pages, \<^verbatim>\<open>for (let i = 1; i <= pdf.numPages; i++)\<close>.\<close>

function pdf_loop :: "pdf_document \<Rightarrow> nat \<Rightarrow> string \<Rightarrow> js_thrown + string" where
  "pdf_loop pdf i fullText =
     (if i \<le> numPages pdf
      then (case getPage pdf i of
              Inl e \<Rightarrow> Inl e
            | Inr items \<Rightarrow> pdf_loop pdf (i + 1) (fullText @ join '' '' (map str items) @ [NL]))
      else Inr fullText)"
  by pat_completeness auto
termination
  by (relation "measure (\<lambda>(pdf, i, fullText). Suc (numPages pdf) - i)") auto

declare pdf_loop.simps [simp del]

definition unsupported_message :: string where
  "unsupported_message = ''Unsupported file type. Please upload a PDF or .docx file.''"

text \<open>The body of the \<^verbatim>\<open>try\<close> block up to the value of \<^verbatim>\<open>text\<close>.\<close>

definition extract_text :: "parsers \<Rightarrow> js_file \<Rightarrow> js_thrown + string" where
  "extract_text lib f =
     (if type f = ''application/pdf''
      then (case getDocument lib f of
              Inl e \<Rightarrow> Inl e
            | Inr pdf \<Rightarrow> pdf_loop pdf 1 [])
      else if endsWith (name f) ''.docx'' then extractRawText lib f
      else Inl (Error unsupported_message))"

definition handleClearResume :: "app_state \<Rightarrow> app_state" where
  "handleClearResume st = st\<lparr>resume := [], resumeFileName := None, resumeError := None\<rparr>"

fun parse_failure_message :: "js_thrown \<Rightarrow> string" where
  "parse_failure_message (Error m) = ''Failed to parse file. '' @ m"
| "parse_failure_message NonError = ''Failed to parse file. An unknown error occurred.''"

text \<open>The handler before its first \<^verbatim>\<open>await\<close>, and what it does with the outcome.\<close>

definition begin_file_select :: "app_state \<Rightarrow> app_state" where
  "begin_file_select st =
     st\<lparr>isParsing := True, error := None, resumeError := None, resume := [],
        resumeFileName := None\<rparr>"

definition finish_file_select :: "js_file \<Rightarrow> js_thrown + string \<Rightarrow> app_state \<Rightarrow> app_state" where
  "finish_file_select f outcome st =
     (let st1 = (case outcome of
                   Inr text \<Rightarrow> st\<lparr>resume := text, resumeFileName := Some (name f)\<rparr>
                 | Inl err \<Rightarrow> handleClearResume (st\<lparr>error := Some (parse_failure_message err)\<rparr>))
      in st1\<lparr>isParsing := False\<rparr>)"

text \<open>\<^verbatim>\<open>handleFileSelect\<close>; \<open>None\<close> is a change event without a file.\<close>

definition handleFileSelect :: "parsers \<Rightarrow> js_file option \<Rightarrow> app_state \<Rightarrow> app_state" where
  "handleFileSelect lib selected st =
     (case selected of
        None \<Rightarrow> st
      | Some f \<Rightarrow> finish_file_select f (extract_text lib f) (begin_file_select st))"

text \<open>
  The page-by-page description of the extracted text: each page's items joined by a
  space and followed by a newline, the pages in order.
\<close>

definition pages_text :: "text_item list list \<Rightarrow> string" where
  "pages_text pages = concat (map (\<lambda>items. join '' '' (map str items) @ [NL]) pages)"

text \<open>The extension test that the file chooser advertises (\<^verbatim>\<open>accept=".pdf,.docx"\<close>).\<close>

definition has_accepted_extension :: "js_file \<Rightarrow> bool" where
  "has_accepted_extension f \<longleftrightarrow> endsWith (name f) ''.pdf'' \<or> endsWith (name f) ''.docx''"

section \<open>The markdown renderer (App)\<close>

subsection \<open>String operations of the renderer\<close>

text \<open>
  \<^verbatim>\<open>s.indexOf(p, from)\<close>: the first position at or after \<open>from\<close> where \<open>p\<close> occurs,
  or \<open>-1\<close>.
\<close>

fun indexOf_aux :: "string \<Rightarrow> string \<Rightarrow> nat \<Rightarrow> int" where
  "indexOf_aux [] p i = (if p = [] then int i else - 1)"
| "indexOf_aux (c # cs) p i = (if startsWith (c # cs) p then int i else indexOf_aux cs p (Suc i))"

definition indexOf :: "string \<Rightarrow> string \<Rightarrow> nat \<Rightarrow> int" where
  "indexOf s p from = (let k = min from (length s) in indexOf_aux (drop k s) p k)"

text \<open>
  \<^verbatim>\<open>s.substring(a, b)\<close>: both indices are clamped to the string and swapped when
  they are out of order; \<^verbatim>\<open>s.substring(a)\<close> runs to the end.
\<close>

definition substring :: "string \<Rightarrow> int \<Rightarrow> int \<Rightarrow> string" where
  "substring s a b =
     (let n = int (length s);
          a' = max 0 (min a n);
          b' = max 0 (min b n);
          lo = min a' b';
          hi = max a' b'
      in take (nat (hi - lo)) (drop (nat lo) s))"

definition substring_from :: "string \<Rightarrow> int \<Rightarrow> string" where
  "substring_from s a = substring s a (int (length s))"

text \<open>\<^verbatim>\<open>s.split('\n')\<close>, for any separating character.\<close>

fun split_on :: "char \<Rightarrow> string \<Rightarrow> string list" where
  "split_on sep [] = [[]]"
| "split_on sep (c # cs) =
     (if c = sep then [] # split_on sep cs
      else (case split_on sep cs of
              [] \<Rightarrow> [[c]]
            | piece # pieces \<Rightarrow> (c # piece) # pieces))"

subsection \<open>Regular expressions with backtracking\<close>

text \<open>
  A piece of a regular expression maps the text at the current position to the texts
  that can remain after it, in the order in which the backtracking matcher tries them.
  The match of an expression is the first entry of its list.
\<close>

type_synonym matcher = "string \<Rightarrow> string list"

definition re_one :: "(char \<Rightarrow> bool) \<Rightarrow> matcher" where
  "re_one P s = (case s of [] \<Rightarrow> [] | c # cs \<Rightarrow> if P c then [cs] else [])"

definition re_seq :: "matcher \<Rightarrow> matcher \<Rightarrow> matcher" where
  "re_seq m1 m2 s = concat (map m2 (m1 s))"

text \<open>\<^verbatim>\<open>x?\<close> tries \<open>x\<close> first, then nothing.\<close>

definition re_opt :: "matcher \<Rightarrow> matcher" where
  "re_opt m s = m s @ [s]"

text \<open>\<^verbatim>\<open>c*\<close> for a character class is greedy: the longest run first.\<close>

fun re_star :: "(char \<Rightarrow> bool) \<Rightarrow> matcher" where
  "re_star P [] = [[]]"
| "re_star P (c # cs) = (if P c then re_star P cs @ [c # cs] else [c # cs])"

definition re_plus :: "(char \<Rightarrow> bool) \<Rightarrow> matcher" where
  "re_plus P s = (case s of [] \<Rightarrow> [] | c # cs \<Rightarrow> if P c then re_star P cs else [])"

text \<open>\<^verbatim>\<open>c*?\<close> is lazy: the shortest run first.\<close>

fun re_star_lazy :: "(char \<Rightarrow> bool) \<Rightarrow> matcher" where
  "re_star_lazy P [] = [[]]"
| "re_star_lazy P (c # cs) = (c # cs) # (if P c then re_star_lazy P cs else [])"

definition is_digit :: "char \<Rightarrow> bool" where
  "is_digit c \<longleftrightarrow> c \<in> set ''0123456789''"

text \<open>\<^verbatim>\<open>.\<close> matches every character except the line terminators.\<close>

definition is_dot :: "char \<Rightarrow> bool" where
  "is_dot c \<longleftrightarrow> c \<noteq> CHR 0x0A \<and> c \<noteq> CHR 0x0D"

text \<open>The separator of sections, \<^verbatim>\<open>/\n\s*\n/\<close>.\<close>

definition section_separator :: matcher where
  "section_separator = re_seq (re_one (\<lambda>c. c = NL)) (re_seq (re_star is_ws) (re_one (\<lambda>c. c = NL)))"

text \<open>The numbered heading, \<^verbatim>\<open>/^(\d+\.\s*\*?.*?\*?:\s*)/\<close>, tried at the start of the text.\<close>

definition numbered_heading :: matcher where
  "numbered_heading =
     re_seq (re_plus is_digit)
       (re_seq (re_one (\<lambda>c. c = CHR ''.''))
          (re_seq (re_star is_ws)
             (re_seq (re_opt (re_one (\<lambda>c. c = CHR ''*'')))
                (re_seq (re_star_lazy is_dot)
                   (re_seq (re_opt (re_one (\<lambda>c. c = CHR ''*'')))
                      (re_seq (re_one (\<lambda>c. c = CHR '':'')) (re_star is_ws)))))))"

text \<open>The matched text at the start of \<open>s\<close>, if the expression matches there.\<close>

definition match_at_start :: "matcher \<Rightarrow> string \<Rightarrow> string option" where
  "match_at_start m s =
     (case m s of [] \<Rightarrow> None | r # _ \<Rightarrow> Some (take (length s - length r) s))"

text \<open>
  \<^verbatim>\<open>text.split(/\n\s*\n/)\<close>: the text is scanned from the left; where the separator
  matches, the piece collected so far ends and the scan goes on after the match. The
  separator never matches the empty string, so every match moves the scan forward.
\<close>

function split_sections :: "string \<Rightarrow> string \<Rightarrow> string list" where
  "split_sections piece [] = [rev piece]"
| "split_sections piece (c # cs) =
     (case match_at_start section_separator (c # cs) of
        None \<Rightarrow> split_sections (c # piece) cs
      | Some m \<Rightarrow>
          (if m = [] then split_sections (c # piece) cs
           else rev piece # split_sections [] (drop (length m) (c # cs))))"
  by pat_completeness auto
termination
  by (relation "measure (\<lambda>(piece, s). length s)") auto

subsection \<open>Rendering\<close>

text \<open>
  The element produced for a section: a heading with a body paragraph, an unordered
  list, a paragraph with an emphasised numbered heading, or a plain paragraph.
\<close>

datatype block =
  HeadingBody string string
| UnorderedList "string list"
| NumberedParagraph string string
| Paragraph string

text \<open>\<^verbatim>\<open>item.replace(/^\*\s*/, '')\<close>.\<close>

definition strip_bullet :: "string \<Rightarrow> string" where
  "strip_bullet item = (case item of [] \<Rightarrow> [] | c # cs \<Rightarrow> if c = CHR ''*'' then dropWhile is_ws cs else item)"

definition render_section :: "string \<Rightarrow> block" where
  "render_section sec =
     (if startsWith sec ''**'' \<and> str_includes sec ''**''
      then
        let titleEnd = indexOf sec ''**'' 2;
            title = substring sec 2 titleEnd;
            content = trim (substring_from sec (titleEnd + 2))
        in HeadingBody title content
      else if startsWith sec ''* ''
      then UnorderedList (map strip_bullet (split_on NL sec))
      else (case match_at_start numbered_heading sec of
              Some heading \<Rightarrow>
                NumberedParagraph heading (trim (substring_from sec (int (length heading))))
            | None \<Rightarrow> Paragraph sec))"

definition MarkdownRenderer :: "string \<Rightarrow> block list" where
  "MarkdownRenderer text = map render_section (split_sections [] text)"

section \<open>Copying the cover letter (App)\<close>

text \<open>The label of the copy button, \<^verbatim>\<open>{copySuccess ? 'Copied!' : 'Copy'}\<close>.\<close>

definition copy_label :: "app_state \<Rightarrow> string" where
  "copy_label st = (if copySuccess st then ''Copied!'' else ''Copy'')"

text \<open>
  The page around the component: the component's state, the clock in milliseconds, the
  callbacks registered with \<^verbatim>\<open>setTimeout\<close> together with the time at which each is
  due, and the text on the clipboard. The only callback the component registers is
  \<^verbatim>\<open>() => setCopySuccess(false)\<close>.
\<close>

datatype timer_callback = ResetCopySuccess

record page =
  app :: app_state
  clock :: nat
  timers :: "(nat \<times> timer_callback) list"
  clipboard :: string

text \<open>
  \<^verbatim>\<open>handleCopy\<close>, given whether \<^verbatim>\<open>navigator.clipboard.writeText\<close> fulfils its
  promise. When the promise is rejected the \<^verbatim>\<open>then\<close> callback does not run.
\<close>

definition handleCopy :: "bool \<Rightarrow> string \<Rightarrow> page \<Rightarrow> page" where
  "handleCopy written textToCopy pg =
     (if written
      then pg\<lparr>clipboard := textToCopy,
              app := (app pg)\<lparr>copySuccess := True\<rparr>,
              timers := timers pg @ [(clock pg + 2000, ResetCopySuccess)]\<rparr>
      else pg)"

fun run_callback :: "timer_callback \<Rightarrow> app_state \<Rightarrow> app_state" where
  "run_callback ResetCopySuccess st = st\<lparr>copySuccess := False\<rparr>"

text \<open>
  Letting \<open>d\<close> milliseconds pass: the callbacks that have become due run, the earliest
  first, and leave the list.
\<close>

definition advance :: "nat \<Rightarrow> page \<Rightarrow> page" where
  "advance d pg =
     (let t = clock pg + d;
          due = filter (\<lambda>(u, cb). u \<le> t) (timers pg);
          later = filter (\<lambda>(u, cb). \<not> u \<le> t) (timers pg)
      in pg\<lparr>clock := t,
             timers := later,
             app := foldl (\<lambda>st (u, cb). run_callback cb st) (app pg) (sort_key fst due)\<rparr>)"

section \<open>The component as a transition system\<close>

text \<open>
  The events that change the state of the component, each with the condition under
  which the page lets it happen: the three action buttons and the file control are
  disabled while a file is parsed or an action is active; the result editors and the
  copy button exist only while their result is shown.
\<close>

datatype event =
  ChangeResume string
| ChangeJobDescriptions string
| Click action
| Complete "js_thrown + string"
| SelectFile
| ParseDone js_file "js_thrown + string"
| ClearResume
| EditCoverLetter string
| EditRefinedResume string
| CopyDone
| CopyTimeout

definition controls_disabled :: "app_state \<Rightarrow> bool" where
  "controls_disabled st \<longleftrightarrow> isParsing st \<or> activeAction st \<noteq> None"

fun enabled :: "app_state \<Rightarrow> event \<Rightarrow> bool" where
  "enabled st (ChangeResume v) = True"
| "enabled st (ChangeJobDescriptions v) = True"
| "enabled st (Click a) = (\<not> controls_disabled st)"
| "enabled st (Complete outcome) = (activeAction st \<noteq> None)"
| "enabled st SelectFile = (\<not> controls_disabled st)"
| "enabled st (ParseDone f outcome) = isParsing st"
| "enabled st ClearResume = (truthy (resumeFileName st) \<and> \<not> isParsing st)"
| "enabled st (EditCoverLetter v) = (truthy (coverLetter st) \<and> activeAction st = None)"
| "enabled st (EditRefinedResume v) = (truthy (refinedResume st) \<and> activeAction st = None)"
| "enabled st CopyDone = True"
| "enabled st CopyTimeout = True"

fun fire :: "app_state \<Rightarrow> event \<Rightarrow> app_state" where
  "fire st (ChangeResume v) =
     (let st1 = st\<lparr>resume := v\<rparr>;
          st2 = (if truthy (resumeError st) then st1\<lparr>resumeError := None\<rparr> else st1)
      in if truthy (resumeFileName st) then st2\<lparr>resumeFileName := None\<rparr> else st2)"
| "fire st (ChangeJobDescriptions v) =
     (let st1 = st\<lparr>jobDescriptions := v\<rparr>
      in if truthy (jobDescError st) then st1\<lparr>jobDescError := None\<rparr> else st1)"
| "fire st (Click a) = snd (begin_action a st)"
| "fire st (Complete outcome) =
     (case activeAction st of None \<Rightarrow> st | Some a \<Rightarrow> finish_action a outcome st)"
| "fire st SelectFile = begin_file_select st"
| "fire st (ParseDone f outcome) = finish_file_select f outcome st"
| "fire st ClearResume = handleClearResume st"
| "fire st (EditCoverLetter v) = st\<lparr>coverLetter := Some v\<rparr>"
| "fire st (EditRefinedResume v) = st\<lparr>refinedResume := Some v\<rparr>"
| "fire st CopyDone = st\<lparr>copySuccess := True\<rparr>"
| "fire st CopyTimeout = st\<lparr>copySuccess := False\<rparr>"

inductive reachable :: "app_state \<Rightarrow> bool" where
  start: "reachable initial_state"
| step: "reachable st \<Longrightarrow> enabled st e \<Longrightarrow> reachable (fire st e)"

text \<open>The number of results that are not \<^verbatim>\<open>null\<close>.\<close>

definition results_held :: "app_state \<Rightarrow> nat" where
  "results_held st = length (filter (\<lambda>r. r \<noteq> None) [summary st, coverLetter st, refinedResume st])"

definition result_of :: "action \<Rightarrow> app_state \<Rightarrow> string option" where
  "result_of a st =
     (case a of
        Analyze \<Rightarrow> summary st
      | CoverLetter \<Rightarrow> coverLetter st
      | RefineResume \<Rightarrow> refinedResume st)"

section \<open>Classification of failures and sample inputs\<close>

text \<open>The generic message of each generation function.\<close>

definition generic_message :: "action \<Rightarrow> string" where
  "generic_message a =
     (case a of
        Analyze \<Rightarrow> summary_failed_message
      | CoverLetter \<Rightarrow> cover_letter_failed_message
      | RefineResume \<Rightarrow> refine_failed_message)"

text \<open>
  The error raised inside the \<^verbatim>\<open>try\<close> block for an outcome of the remote call, if any:
  what the call throws, or the empty-response error.
\<close>

fun failure_of :: "api_outcome \<Rightarrow> js_thrown option" where
  "failure_of (Throws e) = Some e"
| "failure_of (Responds None) = Some (Error empty_response_message)"
| "failure_of (Responds (Some t)) = (if t = [] then Some (Error empty_response_message) else None)"

text \<open>Environments and states used to run the definitions on concrete inputs.\<close>

definition failing_environment :: environment where
  "failing_environment =
     \<lparr>API_KEY = Some ''secret'',
      generateContent = (\<lambda>req. Throws (Error ''400: API key not valid.''))\<rparr>"

definition answering_environment :: "string option \<Rightarrow> environment" where
  "answering_environment t = \<lparr>API_KEY = Some ''secret'', generateContent = (\<lambda>req. Responds t)\<rparr>"

definition unconfigured_environment :: environment where
  "unconfigured_environment = \<lparr>API_KEY = None, generateContent = (\<lambda>req. Responds (Some ''text''))\<rparr>"

definition whitespace_resume_state :: app_state where
  "whitespace_resume_state =
     initial_state\<lparr>resume := ''  \<newline> '', jobDescriptions := ''Engineer wanted''\<rparr>"

definition filled_state :: app_state where
  "filled_state =
     initial_state\<lparr>resume := ''Ten years of Haskell'', jobDescriptions := ''Engineer wanted'',
                   coverLetter := Some ''Dear team''\<rparr>"

text \<open>
  A session of the page: the events fire in order, each only if the page lets it
  happen.
\<close>

fun run_events :: "app_state \<Rightarrow> event list \<Rightarrow> app_state option" where
  "run_events st [] = Some st"
| "run_events st (e # es) = (if enabled st e then run_events (fire st e) es else None)"

definition sample_session :: "event list" where
  "sample_session =
     [ChangeResume ''Ten years of Haskell'',
      ChangeJobDescriptions ''Engineer wanted'',
      Click Analyze,
      Complete (Inr ''**Strengths**\<newline>You have good skills''),
      Click CoverLetter,
      Complete (Inr ''Dear team'')]"

text \<open>
  The invariant behind the mutual exclusion of the results: at most one is held, and
  none while an action is active.
\<close>

definition results_invariant :: "app_state \<Rightarrow> bool" where
  "results_invariant st \<longleftrightarrow>
     results_held st \<le> 1 \<and> (activeAction st \<noteq> None \<longrightarrow> results_held st = 0)"

text \<open>A PDF of two pages, and parsing libraries that succeed on every file.\<close>

definition two_page_pdf :: pdf_document where
  "two_page_pdf =
     \<lparr>numPages = 2,
      getPage = (\<lambda>i. if i = 1 then Inr [\<lparr>str = ''Hello''\<rparr>, \<lparr>str = ''World''\<rparr>]
                     else if i = 2 then Inr [\<lparr>str = ''Foo''\<rparr>, \<lparr>str = ''Bar''\<rparr>]
                     else Inl (Error ''Invalid page request.''))\<rparr>"

definition sample_parsers :: parsers where
  "sample_parsers =
     \<lparr>getDocument = (\<lambda>f. Inr two_page_pdf),
      extractRawText = (\<lambda>f. Inr ''Jane Doe, engineer'')\<rparr>"

text \<open>A page on which no timer is pending.\<close>

definition idle_page :: page where
  "idle_page = \<lparr>app = filled_state, clock = 5000, timers = [], clipboard = []\<rparr>"

section \<open>Properties of the completion client and of validation\<close>

lemma trim_Nil_iff_blank: "trim s = [] \<longleftrightarrow> blank s"
proof
  assume "trim s = []"
  then have all: "\<forall>c \<in> set (dropWhile is_ws s). is_ws c"
    by (simp add: trim_def dropWhile_eq_Nil_conv)
  have "dropWhile is_ws s = []"
  proof (rule ccontr)
    assume ne: "dropWhile is_ws s \<noteq> []"
    then have "\<not> is_ws (hd (dropWhile is_ws s))" by (rule hd_dropWhile)
    moreover have "hd (dropWhile is_ws s) \<in> set (dropWhile is_ws s)" using ne by simp
    ultimately show False using all by blast
  qed
  then show "blank s" by (simp add: blank_def dropWhile_eq_Nil_conv)
next
  assume "blank s"
  then have "dropWhile is_ws s = []" by (simp add: blank_def dropWhile_eq_Nil_conv)
  then have "trim s = rev (dropWhile is_ws (rev []))" by (simp only: trim_def)
  then show "trim s = []" by simp
qed

lemma empty_response_not_key_failure: "\<not> is_key_failure (Error empty_response_message)"
  by (simp add: empty_response_message_def)

lemma rethrow_empty_response: "rethrow generic (Error empty_response_message) = Error generic"
  using empty_response_not_key_failure by (simp add: rethrow_def)

lemma validateInputs_fst:
  "fst (validateInputs st) \<longleftrightarrow> \<not> blank (resume st) \<and> \<not> blank (jobDescriptions st)"
  by (simp add: validateInputs_def trim_Nil_iff_blank)

lemma validateInputs_snd:
  "snd (validateInputs st) =
     st\<lparr>resumeError := (if blank (resume st) then Some resume_empty_message else None),
        jobDescError := (if blank (jobDescriptions st) then Some jobDesc_empty_message else None)\<rparr>"
  by (simp add: validateInputs_def trim_Nil_iff_blank)

lemma run_action_invalid:
  assumes "blank (resume st) \<or> blank (jobDescriptions st)"
  shows "run_action a env st = (snd (validateInputs st), [])"
proof -
  have "\<not> fst (validateInputs st)" using assms by (simp add: validateInputs_fst)
  then show ?thesis
    by (simp add: run_action_def begin_action_def split_beta)
qed

lemma run_action_valid:
  assumes "\<not> blank (resume st)" "\<not> blank (jobDescriptions st)"
  shows "run_action a env st =
     (finish_action a (fst (generate a env (resume st) (jobDescriptions st)))
        (clearResults (st\<lparr>resumeError := None, jobDescError := None,
                         activeAction := Some a, error := None\<rparr>)),
      snd (generate a env (resume st) (jobDescriptions st)))"
proof -
  have "fst (validateInputs st)" using assms by (simp add: validateInputs_fst)
  then show ?thesis using assms
    by (simp add: run_action_def begin_action_def split_beta validateInputs_snd)
qed

lemma generate_unconfigured:
  "\<not> truthy (API_KEY env) \<Longrightarrow> generate a env r j = (Inl (Error not_configured_message), [])"
  by (cases a)
     (simp_all add: generate_def generateAlignmentSummary_def generateCoverLetter_def
        refineResumeForATS_def)

lemma generate_failure:
  assumes "truthy (API_KEY env)" "\<forall>req. failure_of (generateContent env req) = Some e"
  shows "fst (generate a env r j) = Inl (rethrow (generic_message a) e)"
proof -
  have *: "\<And>req. (case generateContent env req of
              Throws e' \<Rightarrow> (Inl (rethrow g e'), [req])
            | Responds None \<Rightarrow> (Inl (rethrow g (Error empty_response_message)), [req])
            | Responds (Some text) \<Rightarrow>
                (if text = [] then (Inl (rethrow g (Error empty_response_message)), [req])
                 else (Inr (f text), [req]))) = (Inl (rethrow g e), [req])" for g f
  proof -
    fix req
    have "failure_of (generateContent env req) = Some e" using assms(2) by blast
    then show "?thesis req"
      by (cases "generateContent env req") (auto split: option.splits if_splits)
  qed
  show ?thesis using assms(1)
    by (cases a)
       (simp_all add: generate_def generateAlignmentSummary_def generateCoverLetter_def
          refineResumeForATS_def generic_message_def Let_def *)
qed

text \<open>
  Claim C1. When the resume or the job descriptions are empty or hold only white space,
  each of the three handlers sets the inline error of every offending field and returns
  without sending a request; the results and the active action stay as they were.
\<close>

theorem blank_input_blocks_every_action:
  assumes "h \<in> {handleSummarize, handleGenerateCoverLetter, handleRefineResume}"
    and "blank (resume st) \<or> blank (jobDescriptions st)"
  shows "snd (h env st) = [] \<and>
         (blank (resume st) \<longrightarrow>
            resumeError (fst (h env st)) = Some ''Resume content cannot be empty.'') \<and>
         (blank (jobDescriptions st) \<longrightarrow>
            jobDescError (fst (h env st)) = Some ''Job description(s) cannot be empty.'') \<and>
         summary (fst (h env st)) = summary st \<and>
         coverLetter (fst (h env st)) = coverLetter st \<and>
         refinedResume (fst (h env st)) = refinedResume st \<and>
         activeAction (fst (h env st)) = activeAction st"
proof -
  from assms(1) obtain a where h: "h = run_action a"
    by (auto simp: handleSummarize_def handleGenerateCoverLetter_def handleRefineResume_def)
  have "h env st = (snd (validateInputs st), [])"
    unfolding h using assms(2) by (rule run_action_invalid)
  then show ?thesis
    by (simp add: validateInputs_snd resume_empty_message_def jobDesc_empty_message_def)
qed

theorem blank_input_blocks_every_action_witness:
  "blank (resume whitespace_resume_state) \<and>
   snd (handleSummarize (answering_environment (Some ''fine'')) whitespace_resume_state) = [] \<and>
   resumeError (fst (handleSummarize (answering_environment (Some ''fine'')) whitespace_resume_state))
     = Some ''Resume content cannot be empty.''"
proof -
  have b: "blank (resume whitespace_resume_state)"
    by (simp add: whitespace_resume_state_def initial_state_def blank_def is_ws_def)
  have m: "handleSummarize \<in> {handleSummarize, handleGenerateCoverLetter, handleRefineResume}"
    by simp
  from b have b': "blank (resume whitespace_resume_state) \<or> blank (jobDescriptions whitespace_resume_state)"
    by simp
  show ?thesis
    using b blank_input_blocks_every_action [OF m b', of "answering_environment (Some ''fine'')"]
    by simp
qed

text \<open>
  Claim C2. Without a credential in the environment, each of the three generation
  functions throws the configuration error and sends no request, whatever the inputs.
\<close>

theorem missing_credential_stops_before_any_request:
  assumes "API_KEY env = None"
  shows "generateAlignmentSummary env r j =
           (Inl (Error ''Gemini API Key is not configured. Please set the API_KEY environment variable.''), []) \<and>
         generateCoverLetter env r j =
           (Inl (Error ''Gemini API Key is not configured. Please set the API_KEY environment variable.''), []) \<and>
         refineResumeForATS env r j =
           (Inl (Error ''Gemini API Key is not configured. Please set the API_KEY environment variable.''), [])"
  using assms
  by (simp add: generateAlignmentSummary_def generateCoverLetter_def refineResumeForATS_def
      not_configured_message_def)

theorem missing_credential_stops_before_any_request_witness:
  "API_KEY unconfigured_environment = None \<and>
   generateCoverLetter unconfigured_environment ''Ten years of Haskell'' ''Engineer wanted'' =
     (Inl (Error ''Gemini API Key is not configured. Please set the API_KEY environment variable.''), [])"
proof -
  have k: "API_KEY unconfigured_environment = None"
    by (simp add: unconfigured_environment_def)
  show ?thesis
    using k missing_credential_stops_before_any_request [OF k] by simp
qed

text \<open>
  Claim C7. A response whose text is absent or empty makes each of the three generation
  functions throw; none of them returns the empty text.
\<close>

theorem empty_response_is_an_error:
  assumes "truthy (API_KEY env)"
    and "\<forall>req. generateContent env req = Responds t"
    and "\<not> truthy t"
  shows "fst (generateAlignmentSummary env r j) =
           Inl (Error ''Failed to generate summary from AI. Please try again later.'') \<and>
         fst (generateCoverLetter env r j) =
           Inl (Error ''Failed to generate cover letter from AI. Please try again later.'') \<and>
         fst (refineResumeForATS env r j) =
           Inl (Error ''Failed to refine resume from AI. Please try again later.'')"
proof -
  have f: "\<forall>req. failure_of (generateContent env req) = Some (Error empty_response_message)"
    using assms(2,3) by (cases t) auto
  have "fst (generate a env r j) = Inl (Error (generic_message a))" for a
    using generate_failure [OF assms(1) f] by (simp add: rethrow_empty_response)
  from this [of Analyze] this [of CoverLetter] this [of RefineResume] show ?thesis
    by (simp add: generate_def generic_message_def summary_failed_message_def
        cover_letter_failed_message_def refine_failed_message_def)
qed

theorem empty_response_is_an_error_witness:
  "truthy (API_KEY (answering_environment (Some []))) \<and>
   \<not> truthy (Some []) \<and>
   fst (generateAlignmentSummary (answering_environment (Some [])) ''Ten years of Haskell''
          ''Engineer wanted'') =
     Inl (Error ''Failed to generate summary from AI. Please try again later.'') \<and>
   fst (refineResumeForATS (answering_environment None) ''Ten years of Haskell''
          ''Engineer wanted'') =
     Inl (Error ''Failed to refine resume from AI. Please try again later.'')"
proof -
  have k: "truthy (API_KEY (answering_environment u))" for u
    by (simp add: answering_environment_def)
  have g: "\<forall>req. generateContent (answering_environment u) req = Responds u" for u
    by (simp add: answering_environment_def)
  have e1: "\<not> truthy (Some [])" and e2: "\<not> truthy None" by simp_all
  show ?thesis
    using k e1 empty_response_is_an_error [OF k g e1] empty_response_is_an_error [OF k g e2]
    by simp
qed

text \<open>
  Claim C10. On a response with a non-empty text, \<open>refineResumeForATS\<close> returns the text
  trimmed, while \<open>generateAlignmentSummary\<close> and \<open>generateCoverLetter\<close> return it as it is.
\<close>

theorem refined_resume_is_trimmed:
  assumes "truthy (API_KEY env)"
    and "\<forall>req. generateContent env req = Responds (Some text)"
    and "text \<noteq> []"
  shows "fst (refineResumeForATS env r j) = Inr (trim text) \<and>
         fst (generateAlignmentSummary env r j) = Inr text \<and>
         fst (generateCoverLetter env r j) = Inr text"
  using assms
  by (simp add: generateAlignmentSummary_def generateCoverLetter_def refineResumeForATS_def)

theorem refined_resume_is_trimmed_witness:
  "fst (refineResumeForATS (answering_environment (Some ''  Jane Doe\<newline>Engineer \<newline>''))
          ''Jane'' ''Engineer wanted'') = Inr ''Jane Doe\<newline>Engineer'' \<and>
   fst (generateCoverLetter (answering_environment (Some ''  Jane Doe\<newline>Engineer \<newline>''))
          ''Jane'' ''Engineer wanted'') = Inr ''  Jane Doe\<newline>Engineer \<newline>''"
proof -
  have k: "truthy (API_KEY (answering_environment u))" for u
    by (simp add: answering_environment_def)
  have g: "\<forall>req. generateContent (answering_environment u) req = Responds u" for u
    by (simp add: answering_environment_def)
  have n: "''  Jane Doe\<newline>Engineer \<newline>'' \<noteq> []" by simp
  have t: "trim ''  Jane Doe\<newline>Engineer \<newline>'' = ''Jane Doe\<newline>Engineer''"
    by (simp add: trim_def is_ws_def)
  show ?thesis
    using refined_resume_is_trimmed [OF k g n] t by simp
qed

section \<open>Properties of the three actions\<close>

text \<open>
  Claim C6. When a generation call is made and fails (the remote call throws, or its
  response has no text), the generation function throws one of two messages: the
  invalid-key message when the failure is a credential failure, its generic
  try-again-later message otherwise. The handler shows that message as the page-level
  error and leaves its result, like the other two, null.
\<close>

theorem failed_call_is_reported_and_leaves_no_result:
  assumes "\<not> blank (resume st)" and "\<not> blank (jobDescriptions st)"
    and "truthy (API_KEY env)"
    and "\<forall>req. failure_of (generateContent env req) = Some e"
  shows "fst (generate a env (resume st) (jobDescriptions st)) =
           Inl (Error (if is_key_failure e then invalid_key_message else generic_message a)) \<and>
         error (fst (run_action a env st)) =
           Some (if is_key_failure e then invalid_key_message else generic_message a) \<and>
         result_of a (fst (run_action a env st)) = None \<and>
         results_held (fst (run_action a env st)) = 0 \<and>
         activeAction (fst (run_action a env st)) = None"
proof -
  let ?m = "if is_key_failure e then invalid_key_message else generic_message a"
  have g: "fst (generate a env (resume st) (jobDescriptions st)) = Inl (Error ?m)"
    using generate_failure [OF assms(3,4)] by (simp add: rethrow_def)
  have r: "fst (run_action a env st) =
      finish_action a (Inl (Error ?m))
        (clearResults (st\<lparr>resumeError := None, jobDescError := None,
                         activeAction := Some a, error := None\<rparr>))"
    using run_action_valid [OF assms(1,2)] g by simp
  show ?thesis
    unfolding r using g
    by (cases a)
       (simp_all add: finish_action_def set_result_def clearResults_def result_of_def
          results_held_def)
qed

theorem failed_call_is_reported_and_leaves_no_result_witness:
  "\<not> blank (resume filled_state) \<and> \<not> blank (jobDescriptions filled_state) \<and>
   error (fst (run_action CoverLetter failing_environment filled_state)) =
     Some ''Invalid or missing Gemini API Key. Please check your configuration.'' \<and>
   coverLetter (fst (run_action CoverLetter failing_environment filled_state)) = None \<and>
   error (fst (run_action CoverLetter (answering_environment None) filled_state)) =
     Some ''Failed to generate cover letter from AI. Please try again later.''"
proof -
  have v1: "\<not> blank (resume filled_state)"
    by (simp add: filled_state_def initial_state_def blank_def is_ws_def)
  have v2: "\<not> blank (jobDescriptions filled_state)"
    by (simp add: filled_state_def initial_state_def blank_def is_ws_def)
  have k1: "truthy (API_KEY failing_environment)"
    by (simp add: failing_environment_def)
  have f1: "\<forall>req. failure_of (generateContent failing_environment req) =
              Some (Error ''400: API key not valid.'')"
    by (simp add: failing_environment_def)
  have c1: "is_key_failure (Error ''400: API key not valid.'')" by simp
  have k2: "truthy (API_KEY (answering_environment None))"
    by (simp add: answering_environment_def)
  have f2: "\<forall>req. failure_of (generateContent (answering_environment None) req) =
              Some (Error empty_response_message)"
    by (simp add: answering_environment_def)
  show ?thesis
    using v1 v2 c1 empty_response_not_key_failure
      failed_call_is_reported_and_leaves_no_result [OF v1 v2 k1 f1, of CoverLetter]
      failed_call_is_reported_and_leaves_no_result [OF v1 v2 k2 f2, of CoverLetter]
    by (simp add: result_of_def invalid_key_message_def generic_message_def
        cover_letter_failed_message_def)
qed

lemma results_invariant_initial: "results_invariant initial_state"
  by (simp add: results_invariant_def results_held_def initial_state_def)

lemma begin_action_results:
  "begin_action a st = (go, st1) \<Longrightarrow>
     (go \<longrightarrow> results_held st1 = 0 \<and> activeAction st1 = Some a) \<and>
     (\<not> go \<longrightarrow> results_held st1 = results_held st \<and> activeAction st1 = activeAction st)"
  by (auto simp: begin_action_def validateInputs_def clearResults_def results_held_def
      Let_def split: if_splits)

lemma finish_action_results:
  "results_held st = 0 \<Longrightarrow>
     results_held (finish_action a outcome st) \<le> 1 \<and>
     activeAction (finish_action a outcome st) = None \<and>
     (\<forall>b. b \<noteq> a \<longrightarrow> result_of b (finish_action a outcome st) = None)"
  by (cases a; cases outcome)
     (auto simp: finish_action_def set_result_def results_held_def result_of_def
        split: if_splits action.splits)

lemma results_held_unchanged:
  "summary st' = summary st \<Longrightarrow> coverLetter st' = coverLetter st \<Longrightarrow>
     refinedResume st' = refinedResume st \<Longrightarrow> results_held st' = results_held st"
  by (simp add: results_held_def)

lemma results_invariant_unchanged:
  assumes "results_invariant st"
    and "summary st' = summary st" "coverLetter st' = coverLetter st"
    and "refinedResume st' = refinedResume st" "activeAction st' = activeAction st"
  shows "results_invariant st'"
  using assms results_held_unchanged [of st' st] by (simp add: results_invariant_def)

lemma results_held_edit:
  "results_held st \<le> 1 \<Longrightarrow> coverLetter st \<noteq> None \<Longrightarrow>
     results_held (st\<lparr>coverLetter := Some v\<rparr>) \<le> 1"
  "results_held st \<le> 1 \<Longrightarrow> refinedResume st \<noteq> None \<Longrightarrow>
     results_held (st\<lparr>refinedResume := Some v\<rparr>) \<le> 1"
  by (auto simp: results_held_def split: if_splits)

lemma results_invariant_fire:
  assumes "results_invariant st" and "enabled st e"
  shows "results_invariant (fire st e)"
proof (cases e)
  case (ChangeResume v)
  show ?thesis unfolding ChangeResume
    by (rule results_invariant_unchanged [OF assms(1)]) (simp_all add: Let_def)
next
  case (ChangeJobDescriptions v)
  show ?thesis unfolding ChangeJobDescriptions
    by (rule results_invariant_unchanged [OF assms(1)]) (simp_all add: Let_def)
next
  case (Click a)
  obtain go st1 where b: "begin_action a st = (go, st1)" by (cases "begin_action a st")
  from begin_action_results [OF b] assms(1) show ?thesis
    unfolding Click by (cases go) (auto simp: b results_invariant_def)
next
  case (Complete outcome)
  from assms(2) obtain a where a: "activeAction st = Some a"
    unfolding Complete by auto
  with assms(1) have "results_held st = 0" by (simp add: results_invariant_def)
  from finish_action_results [OF this, of a outcome] show ?thesis
    unfolding Complete by (simp add: a results_invariant_def)
next
  case SelectFile
  show ?thesis unfolding SelectFile
    by (rule results_invariant_unchanged [OF assms(1)]) (simp_all add: begin_file_select_def)
next
  case (ParseDone f outcome)
  show ?thesis unfolding ParseDone
    by (rule results_invariant_unchanged [OF assms(1)])
       (cases outcome; simp add: finish_file_select_def handleClearResume_def)+
next
  case ClearResume
  show ?thesis unfolding ClearResume
    by (rule results_invariant_unchanged [OF assms(1)]) (simp_all add: handleClearResume_def)
next
  case (EditCoverLetter v)
  from assms(2) have c: "coverLetter st \<noteq> None" and i: "activeAction st = None"
    unfolding EditCoverLetter by (cases "coverLetter st"; simp)+
  from assms(1) have "results_held st \<le> 1" by (simp add: results_invariant_def)
  from results_held_edit(1) [OF this c] i show ?thesis
    unfolding EditCoverLetter by (simp add: results_invariant_def)
next
  case (EditRefinedResume v)
  from assms(2) have c: "refinedResume st \<noteq> None" and i: "activeAction st = None"
    unfolding EditRefinedResume by (cases "refinedResume st"; simp)+
  from assms(1) have "results_held st \<le> 1" by (simp add: results_invariant_def)
  from results_held_edit(2) [OF this c] i show ?thesis
    unfolding EditRefinedResume by (simp add: results_invariant_def)
next
  case CopyDone
  show ?thesis unfolding CopyDone
    by (rule results_invariant_unchanged [OF assms(1)]) simp_all
next
  case CopyTimeout
  show ?thesis unfolding CopyTimeout
    by (rule results_invariant_unchanged [OF assms(1)]) simp_all
qed

lemma reachable_results_invariant: "reachable st \<Longrightarrow> results_invariant st"
  by (induction rule: reachable.induct)
     (simp_all add: results_invariant_initial results_invariant_fire)

lemma run_events_reachable:
  "reachable st \<Longrightarrow> run_events st es = Some st' \<Longrightarrow> reachable st'"
proof (induction es arbitrary: st)
  case Nil
  then show ?case by simp
next
  case (Cons e es)
  then show ?case by (auto split: if_splits intro: reachable.step)
qed

lemma finish_action_success:
  "result_of a (finish_action a (Inr t) st) = Some t"
  by (cases a) (simp_all add: finish_action_def set_result_def result_of_def)

text \<open>
  Claim C5. In every state the component can reach, at most one of the three results is
  not null: an operation that starts clears all three, a finished operation leaves the
  results of the other two operations null, and a successful one stores its own.
\<close>

theorem at_most_one_result_at_any_time:
  assumes "reachable st"
  shows "results_held st \<le> 1 \<and>
         (\<forall>a. fst (begin_action a st) \<longrightarrow> results_held (snd (begin_action a st)) = 0) \<and>
         (\<forall>a env b. fst (begin_action a st) \<longrightarrow> b \<noteq> a \<longrightarrow>
             result_of b (fst (run_action a env st)) = None) \<and>
         (\<forall>a env t. fst (begin_action a st) \<longrightarrow>
             fst (generate a env (resume st) (jobDescriptions st)) = Inr t \<longrightarrow>
             result_of a (fst (run_action a env st)) = Some t)"
proof (intro conjI allI impI)
  show "results_held st \<le> 1"
    using reachable_results_invariant [OF assms] by (simp add: results_invariant_def)
next
  fix a assume "fst (begin_action a st)"
  then show "results_held (snd (begin_action a st)) = 0"
    using begin_action_results [OF prod.collapse [symmetric], of a st] by simp
next
  fix a env b assume go: "fst (begin_action a st)" and ne: "b \<noteq> a"
  have z: "results_held (snd (begin_action a st)) = 0"
    using go begin_action_results [OF prod.collapse [symmetric], of a st] by simp
  have "fst (run_action a env st) =
          finish_action a (fst (generate a env (resume st) (jobDescriptions st)))
            (snd (begin_action a st))"
    using go by (simp add: run_action_def split_beta)
  then show "result_of b (fst (run_action a env st)) = None"
    using finish_action_results [OF z] ne by simp
next
  fix a env t
  assume go: "fst (begin_action a st)"
    and ok: "fst (generate a env (resume st) (jobDescriptions st)) = Inr t"
  have "fst (run_action a env st) = finish_action a (Inr t) (snd (begin_action a st))"
    using go ok by (simp add: run_action_def split_beta)
  then show "result_of a (fst (run_action a env st)) = Some t"
    by (simp add: finish_action_success)
qed

lemma sample_session_runs:
  "run_events initial_state sample_session =
     Some (initial_state\<lparr>resume := ''Ten years of Haskell'',
             jobDescriptions := ''Engineer wanted'', coverLetter := Some ''Dear team''\<rparr>)"
  by (simp add: sample_session_def initial_state_def begin_action_def validateInputs_def
      clearResults_def finish_action_def set_result_def controls_disabled_def trim_def
      is_ws_def Let_def)

theorem at_most_one_result_at_any_time_witness:
  "reachable filled_state \<and> results_held filled_state \<le> 1 \<and>
   coverLetter filled_state = Some ''Dear team'' \<and> summary filled_state = None"
proof -
  have r: "reachable filled_state"
    using run_events_reachable [OF reachable.start sample_session_runs]
    by (simp add: filled_state_def)
  show ?thesis
    using r at_most_one_result_at_any_time [OF r]
    by (simp add: filled_state_def initial_state_def)
qed

section \<open>Properties of file selection\<close>

lemma pdf_loop_pages:
  assumes "numPages pdf = length pages"
    and "\<forall>i < length pages. getPage pdf (Suc i) = Inr (pages ! i)"
  shows "k \<le> length pages \<Longrightarrow>
           pdf_loop pdf (Suc k) fullText = Inr (fullText @ pages_text (drop k pages))"
proof (induction "length pages - k" arbitrary: k fullText)
  case 0
  then have "k = length pages" by simp
  then show ?case using assms(1)
    by (subst pdf_loop.simps) (simp add: pages_text_def)
next
  case (Suc n)
  then have lt: "k < length pages" by simp
  then have page: "getPage pdf (Suc k) = Inr (pages ! k)" using assms(2) by blast
  have d: "drop k pages = pages ! k # drop (Suc k) pages"
    using lt by (simp add: Cons_nth_drop_Suc)
  have "n = length pages - Suc k" using Suc.hyps(2) by simp
  from Suc.hyps(1) [OF this] lt
  have ih: "pdf_loop pdf (Suc (Suc k)) ft = Inr (ft @ pages_text (drop (Suc k) pages))" for ft
    by simp
  have "pdf_loop pdf (Suc k) fullText =
          pdf_loop pdf (Suc (Suc k)) (fullText @ join '' '' (map str (pages ! k)) @ [NL])"
    using lt assms(1) page by (subst pdf_loop.simps) simp
  then show ?case by (simp add: ih d pages_text_def)
qed

text \<open>
  Claim C3. For a file of type PDF whose pages all load, the extracted text is the
  concatenation, in page order, of each page's items joined by a space and followed by
  a newline, and the handler stores it as the resume. For the pages
  ["Hello", "World"] and ["Foo", "Bar"] this is "Hello World\nFoo Bar\n".
\<close>

theorem pdf_text_is_pages_joined:
  assumes "type f = ''application/pdf''"
    and "getDocument lib f = Inr pdf"
    and "numPages pdf = length pages"
    and "\<forall>i < length pages. getPage pdf (Suc i) = Inr (pages ! i)"
  shows "extract_text lib f = Inr (pages_text pages) \<and>
         resume (handleFileSelect lib (Some f) st) = pages_text pages \<and>
         pages_text [[\<lparr>str = ''Hello''\<rparr>, \<lparr>str = ''World''\<rparr>], [\<lparr>str = ''Foo''\<rparr>, \<lparr>str = ''Bar''\<rparr>]]
           = ''Hello World\<newline>Foo Bar\<newline>''"
proof -
  have "pdf_loop pdf (Suc 0) [] = Inr ([] @ pages_text (drop 0 pages))"
    using pdf_loop_pages [OF assms(3,4), of 0] by blast
  then have e: "extract_text lib f = Inr (pages_text pages)"
    using assms(1,2) by (simp add: extract_text_def)
  have "resume (handleFileSelect lib (Some f) st) = pages_text pages"
    by (simp add: handleFileSelect_def e finish_file_select_def)
  moreover have "pages_text [[\<lparr>str = ''Hello''\<rparr>, \<lparr>str = ''World''\<rparr>], [\<lparr>str = ''Foo''\<rparr>, \<lparr>str = ''Bar''\<rparr>]]
           = ''Hello World\<newline>Foo Bar\<newline>''"
    by (simp add: pages_text_def NL_def)
  ultimately show ?thesis using e by simp
qed

theorem pdf_text_is_pages_joined_witness:
  "resume (handleFileSelect sample_parsers (Some \<lparr>name = ''cv.pdf'', type = ''application/pdf''\<rparr>)
             initial_state) = ''Hello World\<newline>Foo Bar\<newline>''"
proof -
  let ?pages = "[[\<lparr>str = ''Hello''\<rparr>, \<lparr>str = ''World''\<rparr>], [\<lparr>str = ''Foo''\<rparr>, \<lparr>str = ''Bar''\<rparr>]]"
  have t: "type \<lparr>name = ''cv.pdf'', type = ''application/pdf''\<rparr> = ''application/pdf''" by simp
  have d: "getDocument sample_parsers \<lparr>name = ''cv.pdf'', type = ''application/pdf''\<rparr> = Inr two_page_pdf"
    by (simp add: sample_parsers_def)
  have n: "numPages two_page_pdf = length ?pages" by (simp add: two_page_pdf_def)
  have p: "\<forall>i < length ?pages. getPage two_page_pdf (Suc i) = Inr (?pages ! i)"
    by (simp add: two_page_pdf_def less_Suc_eq)
  show ?thesis
    using pdf_text_is_pages_joined [OF t d n p, of initial_state] by simp
qed

lemma extract_text_unsupported:
  "type f \<noteq> ''application/pdf'' \<Longrightarrow> \<not> endsWith (name f) ''.docx'' \<Longrightarrow>
     extract_text lib f = Inl (Error unsupported_message)"
  by (simp add: extract_text_def)

lemma sample_parsers_pdf_text:
  assumes "type f = ''application/pdf''"
  shows "extract_text sample_parsers f = Inr ''Hello World\<newline>Foo Bar\<newline>''"
proof -
  let ?pages = "[[\<lparr>str = ''Hello''\<rparr>, \<lparr>str = ''World''\<rparr>], [\<lparr>str = ''Foo''\<rparr>, \<lparr>str = ''Bar''\<rparr>]]"
  have n: "numPages two_page_pdf = length ?pages" by (simp add: two_page_pdf_def)
  have p: "\<forall>i < length ?pages. getPage two_page_pdf (Suc i) = Inr (?pages ! i)"
    by (simp add: two_page_pdf_def less_Suc_eq)
  have "pdf_loop two_page_pdf (Suc 0) [] = Inr ([] @ pages_text (drop 0 ?pages))"
    using pdf_loop_pages [OF n p, of 0] by simp
  then show ?thesis using assms
    by (simp add: extract_text_def sample_parsers_def pages_text_def NL_def)
qed

text \<open>
  Claim C4 as stated fails: the extension does not decide. A file named cv.pdf whose
  media type is empty is rejected as unsupported, and a file named notes.txt whose media
  type is application/pdf is parsed and fills the resume.
\<close>

theorem accepted_extension_is_not_the_test:
  "has_accepted_extension \<lparr>name = ''cv.pdf'', type = ''''\<rparr> \<and>
   error (handleFileSelect sample_parsers (Some \<lparr>name = ''cv.pdf'', type = ''''\<rparr>) initial_state) =
     Some ''Failed to parse file. Unsupported file type. Please upload a PDF or .docx file.'' \<and>
   \<not> has_accepted_extension \<lparr>name = ''notes.txt'', type = ''application/pdf''\<rparr> \<and>
   error (handleFileSelect sample_parsers (Some \<lparr>name = ''notes.txt'', type = ''application/pdf''\<rparr>)
            initial_state) = None \<and>
   resume (handleFileSelect sample_parsers (Some \<lparr>name = ''notes.txt'', type = ''application/pdf''\<rparr>)
             initial_state) = ''Hello World\<newline>Foo Bar\<newline>''"
proof -
  have "extract_text sample_parsers \<lparr>name = ''notes.txt'', type = ''application/pdf''\<rparr> =
          Inr ''Hello World\<newline>Foo Bar\<newline>''"
    by (simp add: sample_parsers_pdf_text)
  moreover have "extract_text sample_parsers \<lparr>name = ''cv.pdf'', type = ''''\<rparr> =
          Inl (Error unsupported_message)"
    by (simp add: extract_text_def endsWith_def)
  ultimately show ?thesis
    by (simp add: has_accepted_extension_def endsWith_def handleFileSelect_def
        finish_file_select_def begin_file_select_def handleClearResume_def initial_state_def
        unsupported_message_def)
qed

text \<open>
  Claim C4, amended. A file is accepted exactly when its media type is
  application/pdf or its name ends with .docx: such a file goes to its parser, and what
  the parser extracts fills the resume and the file name. Any other file yields the
  unsupported-file-type error and leaves the resume empty and the file name null.
\<close>

theorem file_is_accepted_by_media_type_or_docx_name:
  "(type f \<noteq> ''application/pdf'' \<and> \<not> endsWith (name f) ''.docx'' \<longrightarrow>
      error (handleFileSelect lib (Some f) st) =
        Some ''Failed to parse file. Unsupported file type. Please upload a PDF or .docx file.'' \<and>
      resume (handleFileSelect lib (Some f) st) = [] \<and>
      resumeFileName (handleFileSelect lib (Some f) st) = None) \<and>
   (type f = ''application/pdf'' \<or> endsWith (name f) ''.docx'' \<longrightarrow>
      extract_text lib f =
        (if type f = ''application/pdf''
         then (case getDocument lib f of Inl e \<Rightarrow> Inl e | Inr pdf \<Rightarrow> pdf_loop pdf 1 [])
         else extractRawText lib f) \<and>
      (\<forall>t. extract_text lib f = Inr t \<longrightarrow>
         error (handleFileSelect lib (Some f) st) = None \<and>
         resume (handleFileSelect lib (Some f) st) = t \<and>
         resumeFileName (handleFileSelect lib (Some f) st) = Some (name f)))"
proof (intro conjI impI allI)
  assume u: "type f \<noteq> ''application/pdf'' \<and> \<not> endsWith (name f) ''.docx''"
  then have e: "extract_text lib f = Inl (Error unsupported_message)"
    by (simp add: extract_text_unsupported)
  show "error (handleFileSelect lib (Some f) st) =
          Some ''Failed to parse file. Unsupported file type. Please upload a PDF or .docx file.''"
    by (simp add: handleFileSelect_def e finish_file_select_def handleClearResume_def
        unsupported_message_def)
  show "resume (handleFileSelect lib (Some f) st) = []"
    by (simp add: handleFileSelect_def e finish_file_select_def handleClearResume_def)
  show "resumeFileName (handleFileSelect lib (Some f) st) = None"
    by (simp add: handleFileSelect_def e finish_file_select_def handleClearResume_def)
next
  assume "type f = ''application/pdf'' \<or> endsWith (name f) ''.docx''"
  then show "extract_text lib f =
        (if type f = ''application/pdf''
         then (case getDocument lib f of Inl e \<Rightarrow> Inl e | Inr pdf \<Rightarrow> pdf_loop pdf 1 [])
         else extractRawText lib f)"
    by (auto simp: extract_text_def)
next
  fix t assume e: "extract_text lib f = Inr t"
  show "error (handleFileSelect lib (Some f) st) = None"
    by (simp add: handleFileSelect_def e finish_file_select_def begin_file_select_def)
  show "resume (handleFileSelect lib (Some f) st) = t"
    by (simp add: handleFileSelect_def e finish_file_select_def)
  show "resumeFileName (handleFileSelect lib (Some f) st) = Some (name f)"
    by (simp add: handleFileSelect_def e finish_file_select_def)
qed

theorem file_is_accepted_by_media_type_or_docx_name_witness:
  "error (handleFileSelect sample_parsers (Some \<lparr>name = ''cv.txt'', type = ''text/plain''\<rparr>)
            filled_state) =
     Some ''Failed to parse file. Unsupported file type. Please upload a PDF or .docx file.'' \<and>
   resume (handleFileSelect sample_parsers (Some \<lparr>name = ''cv.txt'', type = ''text/plain''\<rparr>)
             filled_state) = [] \<and>
   resume (handleFileSelect sample_parsers (Some \<lparr>name = ''cv.docx'', type = ''''\<rparr>)
             filled_state) = ''Jane Doe, engineer'' \<and>
   resumeFileName (handleFileSelect sample_parsers (Some \<lparr>name = ''cv.docx'', type = ''''\<rparr>)
             filled_state) = Some ''cv.docx''"
proof -
  have u: "type \<lparr>name = ''cv.txt'', type = ''text/plain''\<rparr> \<noteq> ''application/pdf'' \<and>
           \<not> endsWith (name \<lparr>name = ''cv.txt'', type = ''text/plain''\<rparr>) ''.docx''"
    by (simp add: endsWith_def)
  have a: "type \<lparr>name = ''cv.docx'', type = ''''\<rparr> = ''application/pdf'' \<or>
           endsWith (name \<lparr>name = ''cv.docx'', type = ''''\<rparr>) ''.docx''"
    by (simp add: endsWith_def)
  have x: "extractRawText sample_parsers \<lparr>name = ''cv.docx'', type = ''''\<rparr> = Inr ''Jane Doe, engineer''"
    by (simp add: sample_parsers_def)
  show ?thesis
    using u a x
      file_is_accepted_by_media_type_or_docx_name
        [of "\<lparr>name = ''cv.txt'', type = ''text/plain''\<rparr>" sample_parsers filled_state]
      file_is_accepted_by_media_type_or_docx_name
        [of "\<lparr>name = ''cv.docx'', type = ''''\<rparr>" sample_parsers filled_state]
    by simp
qed

section \<open>Properties of the markdown renderer\<close>

lemma startsWith_append: "startsWith (p @ s) p"
  by (induction p) simp_all

lemma startsWith_includes: "startsWith s p \<Longrightarrow> str_includes s p"
  by (cases s) (auto elim: startsWith.elims)

lemma indexOf_aux_title:
  "CHR ''*'' \<notin> set title \<Longrightarrow>
     indexOf_aux (title @ ''**'' @ rest) ''**'' i = int (i + length title)"
  by (induction title arbitrary: i) auto

lemma substring_middle:
  "substring (a @ b @ c) (int (length a)) (int (length a + length b)) = b"
  by (simp add: substring_def Let_def min_def max_def)

lemma substring_from_tail:
  "substring_from (a @ c) (int (length a)) = c"
  by (simp add: substring_from_def substring_def Let_def min_def max_def)

lemma render_bold_heading:
  assumes "CHR ''*'' \<notin> set title"
  shows "render_section (''**'' @ title @ ''**'' @ rest) = HeadingBody title (trim rest)"
proof -
  let ?sec = "''**'' @ title @ ''**'' @ rest"
  have s: "startsWith ?sec ''**''" by simp
  have i: "indexOf ?sec ''**'' 2 = int (2 + length title)"
    using indexOf_aux_title [OF assms, of rest "Suc (Suc 0)"] by (simp add: indexOf_def Let_def)
  have t: "substring ?sec 2 (int (2 + length title)) = title"
    using substring_middle [of "''**''" title "''**'' @ rest"] by simp
  have c: "substring_from ?sec (int (2 + length title) + 2) = rest"
    using substring_from_tail [of "''**'' @ title @ ''**''" rest] by (simp add: add.commute)
  show ?thesis
    unfolding render_section_def using s startsWith_includes [OF s] i t c
    by (simp only: Let_def if_True simp_thms)
qed

lemma split_on_join:
  "ls \<noteq> [] \<Longrightarrow> \<forall>l \<in> set ls. sep \<notin> set l \<Longrightarrow> split_on sep (join [sep] ls) = ls"
proof (induction "[sep]" ls rule: join.induct)
  case 1
  then show ?case by simp
next
  case (2 x)
  then show ?case by (induction x) (auto split: list.splits)
next
  case (3 x y ys)
  then have ih: "split_on sep (join [sep] (y # ys)) = y # ys" by simp
  from 3 have "sep \<notin> set x" by simp
  then have "split_on sep (x @ sep # r) = x # split_on sep r" for r
    by (induction x) (auto split: list.splits)
  then show ?case using ih by simp
qed

lemma render_bullets:
  assumes "items \<noteq> []" and "\<forall>x \<in> set items. NL \<notin> set x"
  shows "render_section (join [NL] (map (\<lambda>x. ''* '' @ x) items)) =
           UnorderedList (map (dropWhile is_ws) items)"
proof -
  let ?ls = "map (\<lambda>x. ''* '' @ x) items"
  obtain x xs where items: "items = x # xs" using assms(1) by (cases items) auto
  have st: "startsWith (join [NL] ?ls) ''* ''" and nb: "\<not> startsWith (join [NL] ?ls) ''**''"
    unfolding items by (cases xs; simp)+
  have "\<forall>l \<in> set ?ls. NL \<notin> set l" using assms(2) by (auto simp: NL_def)
  then have sp: "split_on NL (join [NL] ?ls) = ?ls"
    using assms(1) by (simp add: split_on_join)
  have m: "map strip_bullet ?ls = map (dropWhile is_ws) items"
    by (simp add: strip_bullet_def is_ws_def)
  show ?thesis
    by (simp only: render_section_def st nb sp m if_True if_False simp_thms)
qed

text \<open>
  Claim C8. The renderer splits its input at blank lines and renders each section. The
  input "**Strengths**\nYou have good skills" gives the heading "Strengths" with the body
  "You have good skills", and "* A\n* B" gives the list of "A" and "B"; the two sections
  separated by a blank line give both. In general a section that begins with a title
  between two bold marks becomes that title as heading and the trimmed rest as body, and
  a section whose lines all begin with "* " becomes the list of the lines without
  their bullets.
\<close>

theorem renderer_headings_and_lists:
  "MarkdownRenderer ''**Strengths**\<newline>You have good skills'' =
     [HeadingBody ''Strengths'' ''You have good skills''] \<and>
   MarkdownRenderer ''* A\<newline>* B'' = [UnorderedList [''A'', ''B'']] \<and>
   MarkdownRenderer ''**Strengths**\<newline>You have good skills\<newline>\<newline>* A\<newline>* B'' =
     [HeadingBody ''Strengths'' ''You have good skills'', UnorderedList [''A'', ''B'']] \<and>
   (CHR ''*'' \<notin> set title \<longrightarrow>
      render_section (''**'' @ title @ ''**'' @ rest) = HeadingBody title (trim rest)) \<and>
   (items \<noteq> [] \<and> (\<forall>x \<in> set items. NL \<notin> set x) \<longrightarrow>
      render_section (join [NL] (map (\<lambda>x. ''* '' @ x) items)) =
        UnorderedList (map (dropWhile is_ws) items))"
proof (intro conjI impI)
  show "MarkdownRenderer ''**Strengths**\<newline>You have good skills'' =
     [HeadingBody ''Strengths'' ''You have good skills'']"
    by code_simp
  show "MarkdownRenderer ''* A\<newline>* B'' = [UnorderedList [''A'', ''B'']]"
    by code_simp
  show "MarkdownRenderer ''**Strengths**\<newline>You have good skills\<newline>\<newline>* A\<newline>* B'' =
     [HeadingBody ''Strengths'' ''You have good skills'', UnorderedList [''A'', ''B'']]"
    by code_simp
next
  assume "CHR ''*'' \<notin> set title"
  then show "render_section (''**'' @ title @ ''**'' @ rest) = HeadingBody title (trim rest)"
    by (rule render_bold_heading)
next
  assume "items \<noteq> [] \<and> (\<forall>x \<in> set items. NL \<notin> set x)"
  then have "items \<noteq> []" and "\<forall>x \<in> set items. NL \<notin> set x" by simp_all
  then show "render_section (join [NL] (map (\<lambda>x. ''* '' @ x) items)) =
        UnorderedList (map (dropWhile is_ws) items)"
    by (rule render_bullets)
qed

theorem renderer_headings_and_lists_witness:
  "CHR ''*'' \<notin> set ''Strengths'' \<and>
   render_section (''**'' @ ''Strengths'' @ ''**'' @ ''\<newline>You have good skills'') =
     HeadingBody ''Strengths'' ''You have good skills'' \<and>
   render_section (join [NL] (map (\<lambda>x. ''* '' @ x) [''A'', ''B''])) = UnorderedList [''A'', ''B'']"
proof -
  have h: "CHR ''*'' \<notin> set ''Strengths''" by simp
  have i: "[''A'', ''B''] \<noteq> [] \<and> (\<forall>x \<in> set [''A'', ''B'']. NL \<notin> set x)"
    by (simp add: NL_def)
  have t: "trim ''\<newline>You have good skills'' = ''You have good skills''"
    by (simp add: trim_def is_ws_def)
  have d: "map (dropWhile is_ws) [''A'', ''B''] = [''A'', ''B'']"
    by (simp add: is_ws_def)
  show ?thesis
    using h i t d
      renderer_headings_and_lists [of "''Strengths''" "''\<newline>You have good skills''" "[''A'', ''B'']"]
    by (simp del: append.simps)
qed

section \<open>Properties of the copy button\<close>

lemma callbacks_reset_copySuccess:
  "copySuccess (foldl (\<lambda>st (u, cb). run_callback cb st) st due) =
     (if due = [] then copySuccess st else False)"
proof (induction due arbitrary: st)
  case Nil
  then show ?case by simp
next
  case (Cons x due)
  obtain u cb where x: "x = (u, cb)" by (cases x)
  show ?case using Cons.IH [of "run_callback cb st"]
    by (cases cb) (simp add: x)
qed

lemma copySuccess_advance:
  "copySuccess (app (advance d pg)) =
     (if \<exists>(u, cb) \<in> set (timers pg). u \<le> clock pg + d then False else copySuccess (app pg))"
proof -
  let ?due = "filter (\<lambda>(u, cb). u \<le> clock pg + d) (timers pg)"
  have "(sort_key fst ?due = []) = (?due = [])"
    by (metis length_0_conv length_sort)
  also have "\<dots> = (\<not> (\<exists>(u, cb) \<in> set (timers pg). u \<le> clock pg + d))"
    by (auto simp: filter_empty_conv)
  finally show ?thesis
    by (simp add: advance_def Let_def callbacks_reset_copySuccess)
qed

text \<open>
  Claim C9. When the clipboard write succeeds, the label of the copy button is
  "Copied!"; 2000 milliseconds later it is "Copy" again, and when no earlier timer is
  pending it stays "Copied!" for every shorter time. A failed write changes nothing.
\<close>

theorem copied_label_reverts_after_two_seconds:
  "copy_label (app (handleCopy True t pg)) = ''Copied!'' \<and>
   copy_label (app (advance 2000 (handleCopy True t pg))) = ''Copy'' \<and>
   (timers pg = [] \<longrightarrow>
      (\<forall>d < 2000. copy_label (app (advance d (handleCopy True t pg))) = ''Copied!'')) \<and>
   handleCopy False t pg = pg"
  by (simp add: copy_label_def copySuccess_advance handleCopy_def)

theorem copied_label_reverts_after_two_seconds_witness:
  "timers idle_page = [] \<and> (1999::nat) < 2000 \<and>
   copy_label (app idle_page) = ''Copy'' \<and>
   copy_label (app (handleCopy True ''Dear team'' idle_page)) = ''Copied!'' \<and>
   copy_label (app (advance 1999 (handleCopy True ''Dear team'' idle_page))) = ''Copied!'' \<and>
   copy_label (app (advance 2000 (handleCopy True ''Dear team'' idle_page))) = ''Copy''"
proof -
  have e: "timers idle_page = []" by (simp add: idle_page_def)
  have i: "copy_label (app idle_page) = ''Copy''"
    by (simp add: idle_page_def filled_state_def initial_state_def copy_label_def)
  show ?thesis
    using e i copied_label_reverts_after_two_seconds [of "''Dear team''" idle_page]
    by simp
qed

end
